theory Spec2Isabelle
  imports Main
begin

section \<open>The CI pipeline descriptor, \<^verbatim>\<open>.gitlab-ci.yml\<close>\<close>

text \<open>
  The pipeline file is data. It is embedded as the YAML document it is: a scalar, a
  sequence, or a mapping whose keys keep the order of the file. Comments and blank lines of
  the file carry no data and are not part of the document.
\<close>

datatype yaml = YStr string | YSeq "yaml list" | YMap "(string \<times> yaml) list"

text \<open>Lines 7-10 of the file: the job \<^verbatim>\<open>build:nightly\<close>. It has no \<^verbatim>\<open>stage:\<close> key.\<close>

definition build_nightly :: yaml where
  "build_nightly = YMap
     [(''image'', YStr ''rustlang/rust:nightly''),
      (''script'', YSeq [YStr ''cargo build''])]"

text \<open>Lines 13-23: the job \<^verbatim>\<open>test_webgui\<close>.\<close>

definition test_webgui :: yaml where
  "test_webgui = YMap
     [(''stage'', YStr ''test''),
      (''image'', YStr ''circleci/node:10-browsers''),
      (''cache'', YMap
         [(''key'', YStr ''yarn''),
          (''paths'', YSeq [YStr ''webgui/.yarn''])]),
      (''script'', YSeq
         [YStr ''cd webgui'',
          YStr ''yarn install --pure-lockfile --cache-folder .yarn'',
          YStr ''yarn run test''])]"

text \<open>Lines 25-38: the job \<^verbatim>\<open>build_webgui\<close>.\<close>

definition build_webgui :: yaml where
  "build_webgui = YMap
     [(''stage'', YStr ''build''),
      (''image'', YStr ''node:10''),
      (''cache'', YMap
         [(''key'', YStr ''yarn''),
          (''paths'', YSeq [YStr ''webgui/.yarn''])]),
      (''script'', YSeq
         [YStr ''cd webgui'',
          YStr ''yarn install --pure-lockfile --cache-folder .yarn'',
          YStr ''yarn run build --prod'']),
      (''artifacts'', YMap
         [(''paths'', YSeq [YStr ''webgui/dist/''])])]"

text \<open>Lines 40-50: the job \<^verbatim>\<open>publish_webgui\<close>.\<close>

definition publish_webgui :: yaml where
  "publish_webgui = YMap
     [(''stage'', YStr ''publish''),
      (''environment'', YMap
         [(''name'', YStr ''master''),
          (''url'', YStr ''http://qaul.surge.sh/'')]),
      (''only'', YSeq [YStr ''master'']),
      (''image'', YStr ''andthensome/alpine-surge-bash''),
      (''script'', YSeq
         [YStr ''cd webgui/dist/'',
          YStr ''cp index.html 200.html'',
          YStr ''surge --project . --domain qaul.surge.sh''])]"

text \<open>The whole document, top-level keys in file order.\<close>

definition pipeline :: yaml where
  "pipeline = YMap
     [(''stages'', YSeq [YStr ''test'', YStr ''build'', YStr ''publish'']),
      (''build:nightly'', build_nightly),
      (''test_webgui'', test_webgui),
      (''build_webgui'', build_webgui),
      (''publish_webgui'', publish_webgui)]"

subsection \<open>Reading the document\<close>

fun yget :: "string \<Rightarrow> yaml \<Rightarrow> yaml option" where
  "yget k (YMap kvs) = map_of kvs k"
| "yget k (YStr s) = None"
| "yget k (YSeq ys) = None"

fun ykeys :: "yaml \<Rightarrow> string list" where
  "ykeys (YMap kvs) = map fst kvs"
| "ykeys (YStr s) = []"
| "ykeys (YSeq ys) = []"

fun scalars :: "yaml list \<Rightarrow> string list" where
  "scalars [] = []"
| "scalars (YStr s # ys) = s # scalars ys"
| "scalars (y # ys) = scalars ys"

text \<open>
  A key that holds a list of strings; a single scalar stands for the one-element list, an
  absent key for the empty list.
\<close>

definition ystrings :: "string \<Rightarrow> yaml \<Rightarrow> string list" where
  "ystrings k y =
     (case yget k y of
        Some (YSeq ys) \<Rightarrow> scalars ys
      | Some (YStr s) \<Rightarrow> [s]
      | Some (YMap kvs) \<Rightarrow> []
      | None \<Rightarrow> [])"

subsection \<open>How the CI runner reads the document\<close>

text \<open>
  The runner is GitLab CI, an external system; the file is written against its documented
  reading of these keys, which the following definitions transcribe:
  \<^item> the top-level key \<^verbatim>\<open>stages\<close> gives the ordered stage list;
  \<^item> every other top-level key of this file names a job (the keys the runner reserves for
    global settings are excluded);
  \<^item> a job without a \<^verbatim>\<open>stage:\<close> key belongs to the stage \<^verbatim>\<open>test\<close>;
  \<^item> a job without an \<^verbatim>\<open>only:\<close> key runs for every branch, a job with one runs for the
    refs it lists (this file lists plain ref names only);
  \<^item> stages run one after the other in the order of the stage list, the jobs of one stage
    together; a command of a job's script that fails ends the job.
\<close>

definition reserved_keys :: "string list" where
  "reserved_keys =
     [''stages'', ''types'', ''image'', ''services'', ''cache'', ''variables'',
      ''before_script'', ''after_script'', ''default'', ''include'', ''workflow'']"

definition stages :: "yaml \<Rightarrow> string list" where
  "stages p = ystrings ''stages'' p"

fun jobs_of :: "(string \<times> yaml) list \<Rightarrow> (string \<times> yaml) list" where
  "jobs_of [] = []"
| "jobs_of ((k, v) # kvs) =
     (if k \<in> set reserved_keys then jobs_of kvs else (k, v) # jobs_of kvs)"

fun jobs :: "yaml \<Rightarrow> (string \<times> yaml) list" where
  "jobs (YMap kvs) = jobs_of kvs"
| "jobs (YStr s) = []"
| "jobs (YSeq ys) = []"

definition default_stage :: string where
  "default_stage = ''test''"

definition job_stage :: "yaml \<Rightarrow> string" where
  "job_stage j =
     (case yget ''stage'' j of
        Some (YStr s) \<Rightarrow> s
      | Some (YSeq ys) \<Rightarrow> default_stage
      | Some (YMap kvs) \<Rightarrow> default_stage
      | None \<Rightarrow> default_stage)"

definition script :: "yaml \<Rightarrow> string list" where
  "script j = ystrings ''script'' j"

definition runs_on :: "string \<Rightarrow> yaml \<Rightarrow> bool" where
  "runs_on ref j =
     (case yget ''only'' j of
        None \<Rightarrow> True
      | Some y \<Rightarrow> ref \<in> set (ystrings ''only'' j))"

text \<open>The names of the jobs of stage \<open>s\<close> that run for \<open>ref\<close>, in file order.\<close>

fun stage_jobs :: "string \<Rightarrow> string \<Rightarrow> (string \<times> yaml) list \<Rightarrow> string list" where
  "stage_jobs ref s [] = []"
| "stage_jobs ref s ((n, j) # js) =
     (if job_stage j = s \<and> runs_on ref j then n # stage_jobs ref s js
      else stage_jobs ref s js)"

text \<open>
  A run for \<open>ref\<close>: one batch per stage, in the order of the stage list; a batch is the
  stage's name with the jobs that run in it.
\<close>

definition run_plan :: "yaml \<Rightarrow> string \<Rightarrow> (string \<times> string list) list" where
  "run_plan p ref = map (\<lambda>s. (s, stage_jobs ref s (jobs p))) (stages p)"

text \<open>All jobs of a run, in the order of the batches.\<close>

definition run_jobs :: "yaml \<Rightarrow> string \<Rightarrow> string list" where
  "run_jobs p ref = concat (map snd (run_plan p ref))"

text \<open>
  The artifact paths a job declares, and the ones a job receives: by default the runner hands
  a job the artifacts of every job of the stages before its own.
\<close>

definition artifacts :: "yaml \<Rightarrow> string list" where
  "artifacts j =
     (case yget ''artifacts'' j of
        Some a \<Rightarrow> ystrings ''paths'' a
      | None \<Rightarrow> [])"

definition earlier_stages :: "yaml \<Rightarrow> string \<Rightarrow> string list" where
  "earlier_stages p s = takeWhile (\<lambda>t. t \<noteq> s) (stages p)"

fun artifacts_from :: "string list \<Rightarrow> (string \<times> yaml) list \<Rightarrow> string list" where
  "artifacts_from ss [] = []"
| "artifacts_from ss ((n, j) # js) =
     (if job_stage j \<in> set ss then artifacts j @ artifacts_from ss js
      else artifacts_from ss js)"

definition inherited_artifacts :: "yaml \<Rightarrow> yaml \<Rightarrow> string list" where
  "inherited_artifacts p j = artifacts_from (earlier_stages p (job_stage j)) (jobs p)"

text \<open>The cache declaration of a job: its key and its paths.\<close>

definition cache :: "yaml \<Rightarrow> (string \<times> string list) option" where
  "cache j =
     (case yget ''cache'' j of
        Some c \<Rightarrow> Some (concat (ystrings ''key'' c), ystrings ''paths'' c)
      | None \<Rightarrow> None)"

subsection \<open>The shape of a script\<close>

text \<open>Splitting a string at every occurrence of a character.\<close>

fun split_on :: "char \<Rightarrow> string \<Rightarrow> string list" where
  "split_on c [] = [[]]"
| "split_on c (x # xs) =
     (if x = c then [] # split_on c xs
      else (case split_on c xs of
              [] \<Rightarrow> [[x]]
            | w # ws \<Rightarrow> (x # w) # ws))"

definition words :: "string \<Rightarrow> string list" where
  "words s = filter (\<lambda>w. w \<noteq> []) (split_on CHR '' '' s)"

text \<open>
  A command is straight-line when none of its words is a control word of the shell and it
  has no command separator, pipe or background operator.
\<close>

definition control_words :: "string list" where
  "control_words =
     [''if'', ''then'', ''elif'', ''else'', ''fi'', ''for'', ''while'', ''until'', ''do'',
      ''done'', ''case'', ''esac'', ''select'', ''function'', ''trap'', ''exit'', ''return'']"

definition control_chars :: "char list" where
  "control_chars = [CHR '';'', CHR ''&'', CHR ''|'', CHR ''{'', CHR ''('', CHR ''`'', CHR ''$'']"

definition straight_line :: "string \<Rightarrow> bool" where
  "straight_line cmd \<longleftrightarrow>
     list_all (\<lambda>w. w \<notin> set control_words) (words cmd) \<and>
     list_all (\<lambda>c. c \<notin> set control_chars) cmd"

text \<open>
  The job keys with which the runner's retry and failure handling is declared; a job that
  has none of them, and whose script is straight-line, is plain.
\<close>

definition recovery_keys :: "string list" where
  "recovery_keys =
     [''retry'', ''allow_failure'', ''when'', ''after_script'', ''rules'', ''timeout'',
      ''interruptible'']"

definition plain_job :: "yaml \<Rightarrow> bool" where
  "plain_job j \<longleftrightarrow>
     list_all (\<lambda>k. k \<notin> set recovery_keys) (ykeys j) \<and>
     script j \<noteq> [] \<and>
     list_all straight_line (script j)"

subsection \<open>What the commands of the publish script do\<close>

text \<open>
  A workspace is a set of regular files, each a path (its components) with a content,
  together with the directories that exist in it; \<open>map_of\<close> reads the files, so the first
  entry of a path is the file. A path is a directory when it is the root, when it is listed
  as one (this is how an empty directory is there), or when some file lies under it. The
  shell state is the working directory, the workspace, and what has been published: a
  domain with the files sent to it, by paths relative to the project directory.
\<close>

type_synonym path = "string list"

type_synonym fileset = "(path \<times> string) list"



definition path_of :: "string \<Rightarrow> path" where
  "path_of s = filter (\<lambda>d. d \<noteq> [] \<and> d \<noteq> ''.'') (split_on CHR ''/'' s)"

definition lies_under :: "path \<Rightarrow> path \<Rightarrow> bool" where
  "lies_under d p \<longleftrightarrow> length d < length p \<and> take (length d) p = d"



fun under :: "path \<Rightarrow> fileset \<Rightarrow> fileset" where
  "under d [] = []"
| "under d ((p, c) # fs) =
     (if lies_under d p then (drop (length d) p, c) # under d fs else under d fs)"





text \<open>
  What the runner keeps of a workspace for a list of artifact paths: the files that lie
  under one of them.
\<close>

fun under_any :: "string list \<Rightarrow> path \<Rightarrow> bool" where
  "under_any [] p = False"
| "under_any (a # as) p = (lies_under (path_of a) p \<or> under_any as p)"

fun keep :: "string list \<Rightarrow> fileset \<Rightarrow> fileset" where
  "keep as [] = []"
| "keep as ((p, c) # fs) =
     (if under_any as p then (p, c) # keep as fs else keep as fs)"

subsection \<open>What the install command of the webgui jobs does\<close>






text \<open>
  yarn is an external tool; its documentation gives the lockfile options of
  \<^verbatim>\<open>yarn install\<close>:
  \<^item> \<^verbatim>\<open>--frozen-lockfile\<close>: do not write the lockfile, and fail if it needs an update;
  \<^item> \<^verbatim>\<open>--pure-lockfile\<close>: do not write the lockfile;
  \<^item> \<^verbatim>\<open>--no-lockfile\<close>: neither read nor write the lockfile;
  \<^item> none of them: read the lockfile and add to it what it lacks.
  A dependency is a package name with the version range the manifest asks for. The lockfile
  pins dependencies to versions; the registry answers a dependency with the version it
  resolves to at the time of the run.
\<close>

type_synonym dependency = "string \<times> string"

type_synonym lockfile = "(dependency \<times> string) list"









section \<open>The route table, \<^verbatim>\<open>webgui/app/router.js\<close>\<close>

text \<open>
  The module extends the framework's router class, calls \<^verbatim>\<open>Router.map\<close> once with a
  callback, and exports the class. The callback is a sequence of calls of \<^verbatim>\<open>this.route\<close>,
  each with a name, optionally an options object with a \<^verbatim>\<open>path\<close>, and optionally a nested
  callback.
\<close>

datatype route_call = Route_call string "string option" "route_call list option"

text \<open>Lines 9-16: the callback handed to \<^verbatim>\<open>Router.map\<close>.\<close>

definition map_callback :: "route_call list" where
  "map_callback =
     [Route_call ''feed'' None None,
      Route_call ''users'' None
        (Some [Route_call ''user'' (Some ''/:user_id'') None]),
      Route_call ''files'' None None,
      Route_call ''settings'' None None]"

text \<open>
  The router class: the two settings of line 5 and 6, and the callbacks \<^verbatim>\<open>map\<close> has
  collected. \<^verbatim>\<open>config\<close> comes from a module that is not part of the source, so its two
  values are parameters.
\<close>

record router =
  location :: string
  rootURL :: string
  dslCallbacks :: "route_call list list"

datatype stmt =
    Extend string string
  | Map_call "route_call list"
  | Export_default

text \<open>
  The statements of the module in source order (the two imports bind names only). The
  framework's \<^verbatim>\<open>extend\<close> makes the class with the given settings, \<^verbatim>\<open>map\<close> appends its
  callback to the class's callbacks, and the export changes nothing.
\<close>

definition router_module :: "string \<Rightarrow> string \<Rightarrow> stmt list" where
  "router_module locationType root =
     [Extend locationType root, Map_call map_callback, Export_default]"

fun exec_stmt :: "stmt \<Rightarrow> router \<Rightarrow> router" where
  "exec_stmt (Extend l r) R = R\<lparr>location := l, rootURL := r\<rparr>"
| "exec_stmt (Map_call cb) R = R\<lparr>dslCallbacks := dslCallbacks R @ [cb]\<rparr>"
| "exec_stmt Export_default R = R"

definition base_router :: router where
  "base_router = \<lparr>location = [], rootURL = [], dslCallbacks = []\<rparr>"

text \<open>The router after each statement of a module, and after all of them.\<close>

fun trace :: "stmt list \<Rightarrow> router \<Rightarrow> router list" where
  "trace [] R = []"
| "trace (s # ss) R = exec_stmt s R # trace ss (exec_stmt s R)"

definition load :: "stmt list \<Rightarrow> router" where
  "load ss = fold exec_stmt ss base_router"

fun is_map :: "stmt \<Rightarrow> bool" where
  "is_map (Map_call cb) = True"
| "is_map (Extend l r) = False"
| "is_map Export_default = False"

text \<open>
  A declared route: its full name, its path and its children. The framework names a nested
  route after its parent, and gives a route without a \<^verbatim>\<open>path\<close> option the path
  \<^verbatim>\<open>/\<close> followed by its name. The routes the framework adds by itself (index, loading,
  error) are not declarations and are not part of the table.
\<close>

datatype route = Route (route_name: string) (route_path: string) (children: "route list")

definition full_name :: "string \<Rightarrow> string \<Rightarrow> string" where
  "full_name parent n = (if parent = [] then n else parent @ ''.'' @ n)"

fun declare_route :: "string \<Rightarrow> route_call \<Rightarrow> route" where
  "declare_route parent (Route_call n opt cb) =
     Route (full_name parent n)
       (case opt of None \<Rightarrow> ''/'' @ n | Some p \<Rightarrow> p)
       (case cb of
          None \<Rightarrow> []
        | Some cs \<Rightarrow> map (declare_route (full_name parent n)) cs)"

definition route_table :: "router \<Rightarrow> route list" where
  "route_table R = concat (map (map (declare_route [])) (dslCallbacks R))"

text \<open>The URL patterns of a table: each route's path appended to its parent's pattern.\<close>

fun patterns_of :: "string \<Rightarrow> route \<Rightarrow> string list" where
  "patterns_of prefix (Route n p cs) =
     (prefix @ p) # concat (map (patterns_of (prefix @ p)) cs)"

definition patterns :: "route list \<Rightarrow> string list" where
  "patterns rs = concat (map (patterns_of []) rs)"

text \<open>Paths are unique within a nesting level, at every level.\<close>

fun unique_below :: "route \<Rightarrow> bool" where
  "unique_below (Route n p cs) \<longleftrightarrow>
     distinct (map route_path cs) \<and> list_all unique_below cs"

definition unique_siblings :: "route list \<Rightarrow> bool" where
  "unique_siblings rs \<longleftrightarrow> distinct (map route_path rs) \<and> list_all unique_below rs"

subsection \<open>Reading the table\<close>

text \<open>
  The module has no code that reads the table: the framework does, when the application
  navigates to a URL. It splits the URL into segments and matches them against the paths of
  the table, a segment of a path that starts with a colon matching any segment of the URL
  and binding it to the name after the colon. The route found and its bindings become the
  current route of the application.
\<close>

definition segments :: "string \<Rightarrow> string list" where
  "segments u = filter (\<lambda>x. x \<noteq> []) (split_on CHR ''/'' u)"

fun match_segments ::
  "string list \<Rightarrow> string list \<Rightarrow> ((string \<times> string) list \<times> string list) option" where
  "match_segments [] us = Some ([], us)"
| "match_segments (p # ps) [] = None"
| "match_segments (p # ps) (u # us) =
     (if take 1 p = '':'' then
        (case match_segments ps us of
           None \<Rightarrow> None
         | Some (bs, rest) \<Rightarrow> Some ((drop 1 p, u) # bs, rest))
      else if p = u then match_segments ps us
      else None)"

fun recognize_route :: "route \<Rightarrow> string list \<Rightarrow> (string \<times> (string \<times> string) list) option"
  and recognize_routes ::
    "route list \<Rightarrow> string list \<Rightarrow> (string \<times> (string \<times> string) list) option" where
  "recognize_route (Route n p cs) us =
     (case match_segments (segments p) us of
        None \<Rightarrow> None
      | Some (bs, rest) \<Rightarrow>
          if rest = [] then Some (n, bs)
          else
            (case recognize_routes cs rest of
               None \<Rightarrow> None
             | Some (m, bs') \<Rightarrow> Some (m, bs @ bs')))"
| "recognize_routes [] us = None"
| "recognize_routes (x # xs) us =
     (case recognize_route x us of
        Some found \<Rightarrow> Some found
      | None \<Rightarrow> recognize_routes xs us)"

definition recognize :: "route list \<Rightarrow> string \<Rightarrow> (string \<times> (string \<times> string) list) option" where
  "recognize rs u = recognize_routes rs (segments u)"

text \<open>
  The running application: the router class it was started with, and the current route
  with its bindings. Navigating to a URL the table does not recognise is refused and leaves
  the application as it is.
\<close>

record app =
  app_router :: router
  current_route :: "string option"
  current_params :: "(string \<times> string) list"

definition start :: "router \<Rightarrow> app" where
  "start R = \<lparr>app_router = R, current_route = None, current_params = []\<rparr>"

definition visit :: "string \<Rightarrow> app \<Rightarrow> app" where
  "visit u a =
     (case recognize (route_table (app_router a)) u of
        None \<Rightarrow> a
      | Some (n, bs) \<Rightarrow> a\<lparr>current_route := Some n, current_params := bs\<rparr>)"

section \<open>Properties of the pipeline\<close>

lemma stages_pipeline: "stages pipeline = [''test'', ''build'', ''publish'']"
  by (simp add: stages_def ystrings_def pipeline_def)

lemma jobs_pipeline:
  "jobs pipeline =
     [(''build:nightly'', build_nightly), (''test_webgui'', test_webgui),
      (''build_webgui'', build_webgui), (''publish_webgui'', publish_webgui)]"
  by (simp add: pipeline_def reserved_keys_def)

lemma job_stage_build_nightly: "job_stage build_nightly = ''test''"
  by (simp add: job_stage_def build_nightly_def default_stage_def)

lemma job_stage_test_webgui: "job_stage test_webgui = ''test''"
  by (simp add: job_stage_def test_webgui_def)

lemma job_stage_build_webgui: "job_stage build_webgui = ''build''"
  by (simp add: job_stage_def build_webgui_def)

lemma job_stage_publish_webgui: "job_stage publish_webgui = ''publish''"
  by (simp add: job_stage_def publish_webgui_def)

lemmas job_stage_simps =
  job_stage_build_nightly job_stage_test_webgui job_stage_build_webgui
  job_stage_publish_webgui

lemma runs_on_build_nightly: "runs_on ref build_nightly"
  by (simp add: runs_on_def build_nightly_def)

lemma runs_on_test_webgui: "runs_on ref test_webgui"
  by (simp add: runs_on_def test_webgui_def)

lemma runs_on_build_webgui: "runs_on ref build_webgui"
  by (simp add: runs_on_def build_webgui_def)

lemma runs_on_publish_webgui: "runs_on ref publish_webgui \<longleftrightarrow> ref = ''master''"
  by (simp add: runs_on_def ystrings_def publish_webgui_def)

lemmas runs_on_simps =
  runs_on_build_nightly runs_on_test_webgui runs_on_build_webgui runs_on_publish_webgui

lemma run_plan_pipeline:
  "run_plan pipeline ref =
     [(''test'', [''build:nightly'', ''test_webgui'']),
      (''build'', [''build_webgui'']),
      (''publish'', if ref = ''master'' then [''publish_webgui''] else [])]"
  by (simp add: run_plan_def stages_pipeline jobs_pipeline job_stage_simps runs_on_simps)

lemma run_jobs_pipeline:
  "run_jobs pipeline ref =
     [''build:nightly'', ''test_webgui'', ''build_webgui'']
       @ (if ref = ''master'' then [''publish_webgui''] else [])"
  by (simp add: run_jobs_def run_plan_pipeline)

text \<open>
  C2. The stage list is exactly test, build, publish. Every job belongs to one of these
  stages: \<^verbatim>\<open>build:nightly\<close> and \<^verbatim>\<open>test_webgui\<close> to test, \<^verbatim>\<open>build_webgui\<close> to build,
  \<^verbatim>\<open>publish_webgui\<close> to publish. A run is three batches in this order, so the jobs of test
  run before those of build, which run before those of publish.
\<close>

theorem pipeline_stage_order:
  "stages pipeline = [''test'', ''build'', ''publish''] \<and>
   map (\<lambda>(n, j). (n, job_stage j)) (jobs pipeline) =
     [(''build:nightly'', ''test''), (''test_webgui'', ''test''),
      (''build_webgui'', ''build''), (''publish_webgui'', ''publish'')] \<and>
   set (map (\<lambda>(n, j). job_stage j) (jobs pipeline)) \<subseteq> set (stages pipeline) \<and>
   run_plan pipeline ref =
     [(''test'', [''build:nightly'', ''test_webgui'']),
      (''build'', [''build_webgui'']),
      (''publish'', if ref = ''master'' then [''publish_webgui''] else [])]"
  by (simp add: stages_pipeline jobs_pipeline job_stage_simps run_plan_pipeline)

text \<open>
  C3. On a ref other than \<^verbatim>\<open>master\<close> the job \<^verbatim>\<open>publish_webgui\<close> is not part of the run:
  the run consists of the two jobs of stage test and the job of stage build, and the batch
  of stage publish is empty.
\<close>

theorem publish_only_on_master:
  assumes "ref \<noteq> ''master''"
  shows "''publish_webgui'' \<notin> set (run_jobs pipeline ref) \<and>
         run_jobs pipeline ref = [''build:nightly'', ''test_webgui'', ''build_webgui''] \<and>
         run_plan pipeline ref =
           [(''test'', [''build:nightly'', ''test_webgui'']),
            (''build'', [''build_webgui'']),
            (''publish'', [])]"
  using assms by (simp add: run_jobs_pipeline run_plan_pipeline)

theorem publish_only_on_master_witness:
  "''develop'' \<noteq> ''master'' \<and>
   ''publish_webgui'' \<notin> set (run_jobs pipeline ''develop'') \<and>
   run_jobs pipeline ''develop'' = [''build:nightly'', ''test_webgui'', ''build_webgui'']"
proof -
  have d: "''develop'' \<noteq> ''master''" by simp
  show ?thesis using d publish_only_on_master [OF d] by simp
qed

text \<open>
  C8. The job \<^verbatim>\<open>build:nightly\<close> has no \<^verbatim>\<open>stage:\<close> key, so its stage is the default one,
  \<^verbatim>\<open>test\<close>, the first of the stage list. In every run it is in the first batch together
  with \<^verbatim>\<open>test_webgui\<close>, and the batches of build and publish follow.
\<close>

theorem build_nightly_runs_in_test:
  "yget ''stage'' build_nightly = None \<and>
   job_stage build_nightly = default_stage \<and>
   default_stage = ''test'' \<and>
   hd (stages pipeline) = ''test'' \<and>
   hd (run_plan pipeline ref) = (''test'', [''build:nightly'', ''test_webgui'']) \<and>
   map fst (tl (run_plan pipeline ref)) = [''build'', ''publish'']"
  by (simp add: build_nightly_def job_stage_def default_stage_def stages_pipeline
      run_plan_pipeline)

lemma script_publish_webgui:
  "script publish_webgui =
     [''cd webgui/dist/'', ''cp index.html 200.html'',
      ''surge --project . --domain qaul.surge.sh'']"
  by (simp add: script_def ystrings_def publish_webgui_def)

lemma words_cd: "words ''cd webgui/dist/'' = [''cd'', ''webgui/dist/'']"
  by (simp add: words_def)

















lemma artifacts_build_webgui: "artifacts build_webgui = [''webgui/dist/'']"
  by (simp add: artifacts_def ystrings_def build_webgui_def)

lemma artifacts_none:
  "artifacts build_nightly = []" "artifacts test_webgui = []" "artifacts publish_webgui = []"
  by (simp_all add: artifacts_def build_nightly_def test_webgui_def publish_webgui_def)

lemma inherited_artifacts_publish:
  "inherited_artifacts pipeline publish_webgui = [''webgui/dist/'']"
  by (simp add: inherited_artifacts_def earlier_stages_def stages_pipeline jobs_pipeline
      job_stage_simps artifacts_build_webgui artifacts_none)

lemma under_keep:
  "under (path_of a) (keep [a] fs) = under (path_of a) fs"
  by (induction fs) auto

text \<open>
  C5. The job \<^verbatim>\<open>build_webgui\<close> declares the artifact path \<^verbatim>\<open>webgui/dist/\<close>. The stage
  build comes before the stage publish, so \<^verbatim>\<open>publish_webgui\<close> receives this artifact: the
  files under \<^verbatim>\<open>webgui/dist/\<close> that are kept of the build's workspace are the files the
  build left there. The publish script starts by entering \<^verbatim>\<open>webgui/dist/\<close>.
\<close>

theorem build_artifact_reaches_publish:
  "artifacts build_webgui = [''webgui/dist/''] \<and>
   earlier_stages pipeline (job_stage publish_webgui) = [''test'', ''build''] \<and>
   job_stage build_webgui = ''build'' \<and>
   inherited_artifacts pipeline publish_webgui = [''webgui/dist/''] \<and>
   under (path_of ''webgui/dist/'')
     (keep (inherited_artifacts pipeline publish_webgui) fs) =
   under (path_of ''webgui/dist/'') fs \<and>
   words (hd (script publish_webgui)) = [''cd'', ''webgui/dist/'']"
  by (simp add: artifacts_build_webgui earlier_stages_def stages_pipeline job_stage_simps
      inherited_artifacts_publish under_keep script_publish_webgui words_cd)



lemma script_test_webgui:
  "script test_webgui =
     [''cd webgui'', ''yarn install --pure-lockfile --cache-folder .yarn'', ''yarn run test'']"
  by (simp add: script_def ystrings_def test_webgui_def)

lemma script_build_webgui:
  "script build_webgui =
     [''cd webgui'', ''yarn install --pure-lockfile --cache-folder .yarn'',
      ''yarn run build --prod'']"
  by (simp add: script_def ystrings_def build_webgui_def)

lemma script_build_nightly: "script build_nightly = [''cargo build'']"
  by (simp add: script_def ystrings_def build_nightly_def)














lemma straight_line_commands:
  "straight_line ''cargo build''"
  "straight_line ''cd webgui''"
  "straight_line ''yarn install --pure-lockfile --cache-folder .yarn''"
  "straight_line ''yarn run test''"
  "straight_line ''yarn run build --prod''"
  "straight_line ''cd webgui/dist/''"
  "straight_line ''cp index.html 200.html''"
  "straight_line ''surge --project . --domain qaul.surge.sh''"
  by (simp_all add: straight_line_def words_def control_words_def control_chars_def)

lemma ykeys_jobs:
  "ykeys build_nightly = [''image'', ''script'']"
  "ykeys test_webgui = [''stage'', ''image'', ''cache'', ''script'']"
  "ykeys build_webgui = [''stage'', ''image'', ''cache'', ''script'', ''artifacts'']"
  "ykeys publish_webgui = [''stage'', ''environment'', ''only'', ''image'', ''script'']"
  by (simp_all add: build_nightly_def test_webgui_def build_webgui_def publish_webgui_def)

lemma plain_jobs:
  "plain_job build_nightly" "plain_job test_webgui" "plain_job build_webgui"
  "plain_job publish_webgui"
  by (simp_all add: plain_job_def ykeys_jobs recovery_keys_def script_build_nightly
      script_test_webgui script_build_webgui script_publish_webgui straight_line_commands)

text \<open>
  C6. The document has the stage list and the four jobs and nothing else at top level.
  Every job is plain: it has a script, each command of it is straight-line, and the job has
  no key that declares a retry or a reaction to failure.
\<close>

theorem pipeline_is_straight_line:
  "ykeys pipeline =
     [''stages'', ''build:nightly'', ''test_webgui'', ''build_webgui'', ''publish_webgui''] \<and>
   list_all (\<lambda>(n, j). plain_job j) (jobs pipeline)"
  by (simp add: jobs_pipeline plain_jobs, simp add: pipeline_def)

section \<open>Properties of the route table\<close>

lemma load_router_module:
  "load (router_module l r) = \<lparr>location = l, rootURL = r, dslCallbacks = [map_callback]\<rparr>"
  by (simp add: load_def router_module_def base_router_def)

lemma declared_routes:
  "map (declare_route []) map_callback =
     [Route ''feed'' ''/feed'' [],
      Route ''users'' ''/users'' [Route ''users.user'' ''/:user_id'' []],
      Route ''files'' ''/files'' [],
      Route ''settings'' ''/settings'' []]"
  by (simp add: map_callback_def full_name_def)

lemma route_table_router_module:
  "route_table (load (router_module l r)) =
     [Route ''feed'' ''/feed'' [],
      Route ''users'' ''/users'' [Route ''users.user'' ''/:user_id'' []],
      Route ''files'' ''/files'' [],
      Route ''settings'' ''/settings'' []]"
  by (simp add: load_router_module route_table_def declared_routes)

text \<open>
  C1. The table declared by the module has the four top-level routes feed, users, files and
  settings, and one child of users with the path \<^verbatim>\<open>/:user_id\<close>; its URL patterns are
  \<^verbatim>\<open>/feed\<close>, \<^verbatim>\<open>/users\<close>, \<^verbatim>\<open>/users/:user_id\<close>, \<^verbatim>\<open>/files\<close> and \<^verbatim>\<open>/settings\<close>, and there
  is no other route.
\<close>

theorem declared_route_table:
  "route_table (load (router_module l r)) =
     [Route ''feed'' ''/feed'' [],
      Route ''users'' ''/users'' [Route ''users.user'' ''/:user_id'' []],
      Route ''files'' ''/files'' [],
      Route ''settings'' ''/settings'' []] \<and>
   patterns (route_table (load (router_module l r))) =
     [''/feed'', ''/users'', ''/users/:user_id'', ''/files'', ''/settings''] \<and>
   length (route_table (load (router_module l r))) = 4 \<and>
   length (patterns (route_table (load (router_module l r)))) = 5"
  by (simp add: route_table_router_module patterns_def)

text \<open>
  C4. In the declared table the paths of siblings are distinct at every level: the four
  top-level paths are pairwise distinct, users has the single child path \<^verbatim>\<open>/:user_id\<close>, and
  the patterns \<^verbatim>\<open>/users\<close> and \<^verbatim>\<open>/users/:user_id\<close> differ.
\<close>

theorem sibling_paths_unique:
  "unique_siblings (route_table (load (router_module l r))) \<and>
   map route_path (route_table (load (router_module l r))) =
     [''/feed'', ''/users'', ''/files'', ''/settings''] \<and>
   distinct (map route_path (route_table (load (router_module l r)))) \<and>
   map (\<lambda>x. map route_path (children x)) (route_table (load (router_module l r))) =
     [[], [''/:user_id''], [], []] \<and>
   distinct (patterns (route_table (load (router_module l r))))"
  by (simp add: route_table_router_module patterns_def unique_siblings_def)

lemma exec_stmt_frame: "\<not> is_map s \<Longrightarrow> route_table (exec_stmt s R) = route_table R"
  by (cases s) (simp_all add: route_table_def)

lemma app_router_visit: "app_router (visit u a) = app_router a"
  by (simp add: visit_def split: option.split prod.split)

lemma app_router_visits: "app_router (fold visit us a) = app_router a"
  by (induction us arbitrary: a) (simp_all add: app_router_visit)

lemma segments_user: "segments ''/users/42'' = [''users'', ''42'']"
  by (simp add: segments_def)

lemma segments_paths:
  "segments ''/feed'' = [''feed'']"
  "segments ''/users'' = [''users'']"
  "segments ''/:user_id'' = ['':user_id'']"
  by (simp_all add: segments_def)

lemma recognize_user:
  "recognize (route_table (load (router_module l r))) ''/users/42'' =
     Some (''users.user'', [(''user_id'', ''42'')])"
  by (simp add: recognize_def route_table_router_module segments_user segments_paths)

text \<open>
  C7. The module calls \<^verbatim>\<open>Router.map\<close> exactly once. The table is empty before the call
  and is the declared one after it and after the last statement of the module; a statement
  that is not a call of \<^verbatim>\<open>map\<close> leaves the table of any router as it is. Reading the
  table changes the application (navigating to \<^verbatim>\<open>/users/42\<close> makes \<^verbatim>\<open>users.user\<close> the
  current route) and leaves the table as it is: after any sequence of navigations the table
  of the started application is the declared one, entry by entry.
\<close>

theorem route_table_defined_once_and_read_only:
  "length (filter is_map (router_module l r)) = 1 \<and>
   route_table base_router = [] \<and>
   map route_table (trace (router_module l r) base_router) =
     [[], map (declare_route []) map_callback, map (declare_route []) map_callback] \<and>
   route_table (load (router_module l r)) = map (declare_route []) map_callback \<and>
   (\<forall>s R. \<not> is_map s \<longrightarrow> route_table (exec_stmt s R) = route_table R) \<and>
   route_table (app_router (visit u a)) = route_table (app_router a) \<and>
   route_table (app_router (fold visit us (start (load (router_module l r))))) =
     [Route ''feed'' ''/feed'' [],
      Route ''users'' ''/users'' [Route ''users.user'' ''/:user_id'' []],
      Route ''files'' ''/files'' [],
      Route ''settings'' ''/settings'' []] \<and>
   current_route (start (load (router_module l r))) = None \<and>
   current_route (visit ''/users/42'' (start (load (router_module l r)))) =
     Some ''users.user'' \<and>
   current_params (visit ''/users/42'' (start (load (router_module l r)))) =
     [(''user_id'', ''42'')]"
proof (intro conjI allI impI)
  show "length (filter is_map (router_module l r)) = 1"
    by (simp add: router_module_def)
  show "route_table base_router = []"
    by (simp add: base_router_def route_table_def)
  show "map route_table (trace (router_module l r) base_router) =
     [[], map (declare_route []) map_callback, map (declare_route []) map_callback]"
    by (simp add: router_module_def base_router_def route_table_def)
  show "route_table (load (router_module l r)) = map (declare_route []) map_callback"
    by (simp add: load_router_module route_table_def)
  show "route_table (app_router (visit u a)) = route_table (app_router a)"
    by (simp only: app_router_visit)
  show "route_table (app_router (fold visit us (start (load (router_module l r))))) =
     [Route ''feed'' ''/feed'' [],
      Route ''users'' ''/users'' [Route ''users.user'' ''/:user_id'' []],
      Route ''files'' ''/files'' [],
      Route ''settings'' ''/settings'' []]"
    by (simp add: app_router_visits start_def route_table_router_module)
  show "current_route (start (load (router_module l r))) = None"
    by (simp add: start_def)
  show "current_route (visit ''/users/42'' (start (load (router_module l r)))) =
     Some ''users.user''"
    by (simp add: visit_def start_def recognize_user)
  show "current_params (visit ''/users/42'' (start (load (router_module l r)))) =
     [(''user_id'', ''42'')]"
    by (simp add: visit_def start_def recognize_user)
next
  fix s R
  assume "\<not> is_map s"
  then show "route_table (exec_stmt s R) = route_table R"
    by (rule exec_stmt_frame)
qed

theorem route_table_defined_once_and_read_only_witness:
  "length (filter is_map (router_module ''auto'' ''/'')) = 1 \<and>
   route_table (exec_stmt Export_default (load (router_module ''auto'' ''/''))) =
     route_table (load (router_module ''auto'' ''/'')) \<and>
   current_route
     (fold visit [''/users/42'', ''/nowhere'', ''/feed'']
        (start (load (router_module ''auto'' ''/'')))) = Some ''feed'' \<and>
   route_table (app_router
     (fold visit [''/users/42'', ''/nowhere'', ''/feed'']
        (start (load (router_module ''auto'' ''/''))))) =
     [Route ''feed'' ''/feed'' [],
      Route ''users'' ''/users'' [Route ''users.user'' ''/:user_id'' []],
      Route ''files'' ''/files'' [],
      Route ''settings'' ''/settings'' []]"
proof -
  have nomap: "\<not> is_map Export_default" by simp
  have cur: "current_route
     (fold visit [''/users/42'', ''/nowhere'', ''/feed'']
        (start (load (router_module ''auto'' ''/'')))) = Some ''feed''"
    by (simp add: visit_def start_def recognize_def load_router_module route_table_def
        declared_routes segments_def)
  from route_table_defined_once_and_read_only
    [of "''auto''" "''/''" "''/feed''" "start (load (router_module ''auto'' ''/''))"
        "[''/users/42'', ''/nowhere'', ''/feed'']"]
  show ?thesis using nomap cur by blast
qed

end
